theory Spec2Isabelle
  imports Complex_Main "HOL-Library.Sublist"
begin

section \<open>The transport client (\<open>aiowithings/withings.py\<close>)\<close>

subsection \<open>Errors, library calls, responses and the outside world\<close>

text \<open>
  The exceptions \<open>_request\<close> can end with: the two classes it raises itself, and
  \<open>Uncaught\<close> for an exception of a library call that \<open>_request\<close> lets through, by
  the name of its class or of the call. \<open>WithingsError\<close> carries its message and the
  dictionary passed as second argument, in the order of the dictionary display.
\<close>

datatype error =
    WithingsConnectionError string
  | WithingsError string "(string \<times> string) list"
  | Uncaught string

text \<open>
  What the installed libraries decide: the version that
  \<open>metadata.version(__package__)\<close> finds (\<open>None\<close> when it raises
  \<open>PackageNotFoundError\<close>), and the hosts that the host validation of \<open>yarl\<close> lets
  through, which depends on the version of \<open>yarl\<close>.
\<close>

record library =
  package_version :: "string option"
  host_ok :: "string \<Rightarrow> bool"

definition metadata_version :: "library \<Rightarrow> error + string" where
  "metadata_version lib =
     (case package_version lib of
        None \<Rightarrow> Inl (Uncaught ''PackageNotFoundError'')
      | Some v \<Rightarrow> Inr v)"

text \<open>
  A \<open>yarl.URL\<close>, reduced to what \<open>URL.build\<close> and \<open>joinpath\<close> are given. \<open>URL.build\<close>
  raises \<open>ValueError\<close> for a port without a host and for a host it does not accept;
  \<open>joinpath\<close> raises \<open>ValueError\<close> for a path that starts with a slash.
\<close>

record url =
  url_scheme :: string
  url_host :: string
  url_port :: int
  url_segments :: "string list"

definition URL_build :: "library \<Rightarrow> string \<Rightarrow> string \<Rightarrow> int \<Rightarrow> error + url" where
  "URL_build lib scheme host port =
     (if port \<noteq> 0 \<and> host = [] then Inl (Uncaught ''ValueError'')
      else if \<not> host_ok lib host then Inl (Uncaught ''ValueError'')
      else Inr \<lparr>url_scheme = scheme, url_host = host, url_port = port, url_segments = []\<rparr>)"

definition joinpath :: "url \<Rightarrow> string \<Rightarrow> error + url" where
  "joinpath u p =
     (case p of
        [] \<Rightarrow> Inr (u\<lparr>url_segments := url_segments u @ [p]\<rparr>)
      | ch # _ \<Rightarrow>
          if ch = CHR ''/'' then Inl (Uncaught ''ValueError'')
          else Inr (u\<lparr>url_segments := url_segments u @ [p]\<rparr>))"

text \<open>
  What \<open>_request\<close> reads of an \<open>aiohttp\<close> response: the \<open>Content-Type\<close> header
  (\<open>None\<close> when absent); the seconds that reading the body takes; the body as text
  (\<open>None\<close> when \<open>response.text()\<close> raises); and the body parsed as JSON (\<open>None\<close> when
  \<open>response.json()\<close> raises, on a malformed body or a content type that \<open>aiohttp\<close>
  does not take for JSON). The type \<open>'j\<close> is the parsed document.
\<close>

record 'j response =
  content_type_header :: "string option"
  body_seconds :: nat
  response_text :: "string option"
  response_json :: "'j option"

text \<open>
  How the awaited \<open>session.request\<close> would end if nothing stopped it: never, or after
  so many seconds with an exception or with a response whose head has arrived.
\<close>

datatype exn = Asyncio_TimeoutError | Other string

datatype 'j ending = Raises exn | Returns "'j response"

datatype 'j behaviour = Never | After nat "'j ending"

text \<open>
  \<open>async with async_timeout.timeout(t)\<close> around an awaited call: the call ends as it
  would when that takes less than \<open>t\<close> seconds; otherwise the block raises
  \<open>asyncio.TimeoutError\<close> once \<open>t\<close> seconds have passed (at once for \<open>t\<close> not above 0).
  The result is the time spent in the block and how the block ends.
\<close>

definition timeout_block :: "int \<Rightarrow> 'j behaviour \<Rightarrow> nat \<times> 'j ending" where
  "timeout_block t b =
     (case b of
        Never \<Rightarrow> (nat t, Raises Asyncio_TimeoutError)
      | After d e \<Rightarrow> if int d < t then (d, e) else (nat t, Raises Asyncio_TimeoutError))"

type_synonym session_id = nat

text \<open>One call of \<open>session.request\<close>, with the timeout of the block around it.\<close>

record 'd http_call =
  via_session :: session_id
  under_timeout :: int
  http_method :: string
  http_url :: url
  http_headers :: "(string \<times> string) list"
  http_data :: "'d option"

text \<open>
  The world outside the client object: the next fresh session object, the sessions
  whose \<open>close()\<close> has been awaited, the calls of \<open>session.request\<close>, both in order of
  occurrence, and the time in seconds.
\<close>

record 'd world =
  next_session :: session_id
  closed_sessions :: "session_id list"
  calls :: "'d http_call list"
  clock :: nat

definition ClientSession :: "'d world \<Rightarrow> session_id \<times> 'd world" where
  "ClientSession w = (next_session w, w\<lparr>next_session := Suc (next_session w)\<rparr>)"


subsection \<open>The client\<close>

text \<open>
  The dataclass \<open>WithingsClient\<close>; \<open>token\<close> and \<open>close_session\<close> are the fields
  \<open>_token\<close> and \<open>_close_session\<close>. All five fields are parameters of the generated
  constructor. \<open>WithingsClient_default\<close> is \<open>WithingsClient()\<close>: every field at its
  declared default.
\<close>

record WithingsClient =
  session :: "session_id option"
  request_timeout :: int
  api_host :: string
  token :: "string option"
  close_session :: bool

definition WithingsClient_default :: WithingsClient where
  "WithingsClient_default =
     \<lparr>session = None, request_timeout = 10, api_host = ''wbsapi.withings.net'',
      token = None, close_session = False\<rparr>"

definition authenticate :: "WithingsClient \<Rightarrow> string \<Rightarrow> WithingsClient" where
  "authenticate c tok = c\<lparr>token := Some tok\<rparr>"

text \<open>\<open>f"{x}"\<close> of a \<open>str | None\<close>: the string itself, or \<open>None\<close> spelled out.\<close>

definition format_token :: "string option \<Rightarrow> string" where
  "format_token t = (case t of None \<Rightarrow> ''None'' | Some s \<Rightarrow> s)"

definition METH_POST :: string where
  "METH_POST = ''POST''"

definition request_headers :: "string \<Rightarrow> WithingsClient \<Rightarrow> (string \<times> string) list" where
  "request_headers version c =
     [(''User-Agent'', ''AioWithings/'' @ version),
      (''Accept'', ''application/json, text/plain, */*''),
      (''Authorization'', ''Bearer '' @ format_token (token c))]"

text \<open>
  Lines 47 to 58: the version, the URL and the headers. Each of the three library
  calls can raise, and then \<open>_request\<close> ends there.
\<close>

definition prepare ::
  "library \<Rightarrow> WithingsClient \<Rightarrow> string \<Rightarrow> error + url \<times> (string \<times> string) list" where
  "prepare lib c uri =
     (case metadata_version lib of
        Inl e \<Rightarrow> Inl e
      | Inr version \<Rightarrow>
          (case URL_build lib ''https'' (api_host c) 443 of
             Inl e \<Rightarrow> Inl e
           | Inr base \<Rightarrow>
               (case joinpath base uri of
                  Inl e \<Rightarrow> Inl e
                | Inr u \<Rightarrow> Inr (u, request_headers version c))))"

text \<open>Lines 60 to 62: the session in use, created and owned when there is none.\<close>

definition ensure_session ::
  "WithingsClient \<Rightarrow> 'd world \<Rightarrow> session_id \<times> WithingsClient \<times> 'd world" where
  "ensure_session c w =
     (case session c of
        None \<Rightarrow>
          (let (s, w') = ClientSession w
           in (s, c\<lparr>session := Some s, close_session := True\<rparr>, w'))
      | Some s \<Rightarrow> (s, c, w))"

text \<open>Line 76: \<open>response.headers.get("Content-Type", "")\<close>.\<close>

definition content_type :: "'j response \<Rightarrow> string" where
  "content_type r = (case content_type_header r of None \<Rightarrow> [] | Some v \<Rightarrow> v)"

text \<open>
  Lines 78 to 86: what becomes of a response. \<open>sublist\<close> is Python's \<open>in\<close> on
  strings: the first string occurs in the second as a contiguous run.
\<close>

definition handle_response :: "'j response \<Rightarrow> error + 'j" where
  "handle_response r =
     (if \<not> sublist ''application/json'' (content_type r)
      then (case response_text r of
              None \<Rightarrow> Inl (Uncaught ''response.text'')
            | Some text \<Rightarrow>
                Inl (WithingsError ''Unexpected response from Withings''
                       [(''Content-Type'', content_type r), (''response'', text)]))
      else (case response_json r of
              None \<Rightarrow> Inl (Uncaught ''response.json'')
            | Some j \<Rightarrow> Inr j))"

text \<open>The call of lines 66 to 71, for the client \<open>c\<close> through the session \<open>s\<close>.\<close>

definition sent_call ::
  "WithingsClient \<Rightarrow> session_id \<Rightarrow> url \<Rightarrow> (string \<times> string) list \<Rightarrow> 'd option \<Rightarrow> 'd http_call" where
  "sent_call c s u headers data =
     \<lparr>via_session = s,
      under_timeout = request_timeout c,
      http_method = METH_POST,
      http_url = u,
      http_headers = headers,
      http_data = data\<rparr>"

text \<open>
  The try statement of lines 64 to 74 on how the timeout block ended, and lines 76 to
  86 after it: the result, and the seconds spent after the block on the body.
\<close>

fun after_block :: "'j ending \<Rightarrow> (error + 'j) \<times> nat" where
  "after_block (Raises Asyncio_TimeoutError) =
     (Inl (WithingsConnectionError ''Timeout occurred while connecting to Withings''), 0)"
| "after_block (Raises (Other x)) = (Inl (Uncaught x), 0)"
| "after_block (Returns r) = (handle_response r, body_seconds r)"

text \<open>
  Lines 60 to 86: the session, the call inside the timeout block, and what follows the
  block. \<open>net\<close> is how the network would answer a call. The result is the returned
  document or the exception, with the client and the world as they are left.
\<close>

definition send ::
  "('d http_call \<Rightarrow> 'j behaviour) \<Rightarrow> WithingsClient \<Rightarrow> 'd world \<Rightarrow> url
     \<Rightarrow> (string \<times> string) list \<Rightarrow> 'd option \<Rightarrow> (error + 'j) \<times> WithingsClient \<times> 'd world" where
  "send net c w u headers data =
     (let (s, c1, w1) = ensure_session c w;
          call = sent_call c1 s u headers data;
          (seconds, ending) = timeout_block (request_timeout c1) (net call);
          w2 = w1\<lparr>calls := calls w1 @ [call], clock := clock w1 + seconds\<rparr>;
          (res, more) = after_block ending
      in (res, c1, w2\<lparr>clock := clock w2 + more\<rparr>))"

text \<open>
  \<open>_request\<close>, \<open>__aenter__\<close> and \<open>__aexit__\<close> are \<open>request\<close>, \<open>aenter\<close> and \<open>aexit\<close>
  here.
\<close>

definition request ::
  "library \<Rightarrow> ('d http_call \<Rightarrow> 'j behaviour) \<Rightarrow> WithingsClient \<Rightarrow> 'd world \<Rightarrow> string
     \<Rightarrow> 'd option \<Rightarrow> (error + 'j) \<times> WithingsClient \<times> 'd world" where
  "request lib net c w uri data =
     (case prepare lib c uri of
        Inl e \<Rightarrow> (Inl e, c, w)
      | Inr (u, headers) \<Rightarrow> send net c w u headers data)"









subsection \<open>Example inputs of the client\<close>

text \<open>
  Libraries that find the version 2.0 and let every host without a colon through; the
  network that answers every call in the same way; a world at time 0 without calls or
  closed sessions; a JSON response whose body carries the status 401; a JSON response
  whose body does not parse; a JSON response whose body takes 100 seconds to read; and
  a response that is not JSON.
\<close>

definition example_host_ok :: "string \<Rightarrow> bool" where
  "example_host_ok host = (CHR '':'' \<notin> set host)"

definition example_library :: library where
  "example_library = \<lparr>package_version = Some ''2.0'', host_ok = example_host_ok\<rparr>"

definition always :: "'j behaviour \<Rightarrow> 'd http_call \<Rightarrow> 'j behaviour" where
  "always b call = b"

definition fresh_world :: "session_id \<Rightarrow> 'd world" where
  "fresh_world n = \<lparr>next_session = n, closed_sessions = [], calls = [], clock = 0\<rparr>"

definition status_401_response :: "(string \<times> int) list response" where
  "status_401_response =
     \<lparr>content_type_header = Some ''application/json'', body_seconds = 0,
      response_text = Some [], response_json = Some [(''status'', 401)]\<rparr>"

definition malformed_json_response :: "(string \<times> int) list response" where
  "malformed_json_response =
     \<lparr>content_type_header = Some ''application/json'', body_seconds = 0,
      response_text = Some ''{'', response_json = None\<rparr>"

definition slow_body_response :: "(string \<times> int) list response" where
  "slow_body_response =
     \<lparr>content_type_header = Some ''application/json'', body_seconds = 100,
      response_text = Some [], response_json = Some [(''status'', 0)]\<rparr>"

definition bad_gateway_response :: "(string \<times> int) list response" where
  "bad_gateway_response =
     \<lparr>content_type_header = Some ''text/html'', body_seconds = 0,
      response_text = Some ''Bad Gateway'', response_json = None\<rparr>"

section \<open>The measurement model and the aggregator\<close>

text \<open>
  \<open>aiowithings/models.py\<close> and \<open>aiowithings/helpers.py\<close> are not among the sources;
  \<open>__init__.py\<close> only imports their names. The definitions of this section follow the
  specification, sections 3, 4.2, 4.4 and 6.
\<close>

subsection \<open>Measurements and measurement groups\<close>

text \<open>
  Modelled from the spec: the class \<open>Measurement\<close> of \<open>models.py\<close>, a type with a
  value. \<open>'t\<close> is the enumeration \<open>MeasurementType\<close>, whose members the specification
  does not list, and \<open>'v\<close> the decoded value, a float in the specification; measurements
  are built and aggregated without computing on it.
\<close>

record ('t, 'v) Measurement =
  measurement_type :: 't
  measurement_value :: 'v

text \<open>
  Modelled from the spec: the class \<open>MeasurementGroup\<close> of \<open>models.py\<close>, with the
  fields of section 3. The timestamp is in epoch seconds; \<open>'c\<close>, \<open>'a\<close> and \<open>'m\<close> are
  the enumerations of categories, attributions and device models.
\<close>

record ('t, 'v, 'c, 'a, 'm) MeasurementGroup =
  measured_at :: int
  category :: 'c
  attribution :: 'a
  device_id :: "string option"
  model :: "'m option"
  measurements :: "('t, 'v) Measurement list"

text \<open>
  Modelled from the spec: the raw measurement payload of section 6, with the keys
  \<open>type\<close>, \<open>value\<close> (the mantissa) and \<open>unit\<close> (the exponent).
\<close>

record raw_measurement =
  raw_type :: int
  raw_value :: int
  raw_unit :: int

text \<open>
  Modelled from the spec: the raw measurement-group payload of section 6, with the keys
  \<open>category\<close>, \<open>attribution\<close>, \<open>date\<close>, \<open>measures\<close>, and the optional \<open>deviceid\<close> and
  \<open>model\<close>.
\<close>

record raw_measurement_group =
  raw_category :: int
  raw_attribution :: int
  raw_date :: int
  raw_measures :: "raw_measurement list"
  raw_deviceid :: "string option"
  raw_model :: "int option"

text \<open>
  Modelled from the spec: the decode error of section 7, which names the field and the
  code that is not recognised.
\<close>

datatype decode_error = DecodeError string int

text \<open>
  Modelled from the spec: what \<open>from_api\<close> takes from the rest of \<open>models.py\<close>, which
  the specification leaves open: the tables from integer codes to the members of the
  four enumerations (\<open>None\<close> for a code without member; a table that maps every code,
  to an unknown member if need be, is the other policy of section 4.2) and the unit
  decoder of section 4.1.
\<close>

record ('t, 'v, 'c, 'a, 'm) codec =
  type_of_code :: "int \<Rightarrow> 't option"
  decode :: "int \<Rightarrow> int \<Rightarrow> 'v"
  category_of_code :: "int \<Rightarrow> 'c option"
  attribution_of_code :: "int \<Rightarrow> 'a option"
  model_of_code :: "int \<Rightarrow> 'm option"

text \<open>
  Modelled from the spec: reading an integer code into an enumeration (section 4.2),
  failing with a decode error on a code that has no member.
\<close>

definition enum_from_api :: "string \<Rightarrow> (int \<Rightarrow> 'e option) \<Rightarrow> int \<Rightarrow> decode_error + 'e" where
  "enum_from_api field of_code code =
     (case of_code code of
        None \<Rightarrow> Inl (DecodeError field code)
      | Some member \<Rightarrow> Inr member)"

text \<open>
  Modelled from the spec: \<open>Measurement.from_api\<close> of \<open>models.py\<close> (section 4.2): the
  type from its code, the value from the unit decoder applied to \<open>value\<close> and \<open>unit\<close>.
\<close>

definition Measurement_from_api ::
  "('t, 'v, 'c, 'a, 'm) codec \<Rightarrow> raw_measurement \<Rightarrow> decode_error + ('t, 'v) Measurement" where
  "Measurement_from_api cd raw =
     (case enum_from_api ''type'' (type_of_code cd) (raw_type raw) of
        Inl e \<Rightarrow> Inl e
      | Inr t \<Rightarrow>
          Inr \<lparr>measurement_type = t,
               measurement_value = decode cd (raw_value raw) (raw_unit raw)\<rparr>)"

text \<open>
  Modelled from the spec: the list of raw entries mapped through
  \<open>Measurement.from_api\<close>, one after the other; the first entry that fails ends it.
\<close>

fun measures_from_api ::
  "('t, 'v, 'c, 'a, 'm) codec \<Rightarrow> raw_measurement list
     \<Rightarrow> decode_error + ('t, 'v) Measurement list" where
  "measures_from_api cd [] = Inr []"
| "measures_from_api cd (raw # raws) =
     (case Measurement_from_api cd raw of
        Inl e \<Rightarrow> Inl e
      | Inr m \<Rightarrow>
          (case measures_from_api cd raws of
             Inl e \<Rightarrow> Inl e
           | Inr ms \<Rightarrow> Inr (m # ms)))"

text \<open>
  Modelled from the spec: the optional \<open>model\<close> field (section 4.2): no value when the
  payload has none, its member otherwise.
\<close>

definition optional_model_from_api ::
  "('t, 'v, 'c, 'a, 'm) codec \<Rightarrow> int option \<Rightarrow> decode_error + 'm option" where
  "optional_model_from_api cd raw =
     (case raw of
        None \<Rightarrow> Inr None
      | Some code \<Rightarrow>
          (case enum_from_api ''model'' (model_of_code cd) code of
             Inl e \<Rightarrow> Inl e
           | Inr m \<Rightarrow> Inr (Some m)))"

text \<open>
  Modelled from the spec: \<open>MeasurementGroup.from_api\<close> of \<open>models.py\<close> (section 4.2),
  reading the fields in the order the specification gives them: category and
  attribution, the timestamp, the measures, then device and model.
\<close>

definition MeasurementGroup_from_api ::
  "('t, 'v, 'c, 'a, 'm) codec \<Rightarrow> raw_measurement_group
     \<Rightarrow> decode_error + ('t, 'v, 'c, 'a, 'm) MeasurementGroup" where
  "MeasurementGroup_from_api cd raw =
     (case enum_from_api ''category'' (category_of_code cd) (raw_category raw) of
        Inl e \<Rightarrow> Inl e
      | Inr cat \<Rightarrow>
     (case enum_from_api ''attribution'' (attribution_of_code cd) (raw_attribution raw) of
        Inl e \<Rightarrow> Inl e
      | Inr attr \<Rightarrow>
     (case measures_from_api cd (raw_measures raw) of
        Inl e \<Rightarrow> Inl e
      | Inr ms \<Rightarrow>
     (case optional_model_from_api cd (raw_model raw) of
        Inl e \<Rightarrow> Inl e
      | Inr mdl \<Rightarrow>
          Inr \<lparr>measured_at = raw_date raw, category = cat, attribution = attr,
               device_id = raw_deviceid raw, model = mdl, measurements = ms\<rparr>))))"

subsection \<open>The aggregator\<close>

text \<open>
  Modelled from the spec: step 1 of \<open>aggregate_measurements\<close> in \<open>helpers.py\<close>
  (section 4.4): the measurements of all groups in input order, each as type, value and
  the timestamp of its group.
\<close>

type_synonym ('t, 'v) entry = "'t \<times> 'v \<times> int"

definition flatten :: "('t, 'v, 'c, 'a, 'm) MeasurementGroup list \<Rightarrow> ('t, 'v) entry list" where
  "flatten groups =
     concat (map (\<lambda>g. map (\<lambda>m. (measurement_type m, measurement_value m, measured_at g))
                          (measurements g)) groups)"

text \<open>
  Modelled from the spec: step 2, the optional filter: with a set of types, the entries
  of other types are dropped.
\<close>

definition keep_types :: "'t set option \<Rightarrow> ('t, 'v) entry list \<Rightarrow> ('t, 'v) entry list" where
  "keep_types measurement_types es =
     (case measurement_types of
        None \<Rightarrow> es
      | Some ts \<Rightarrow> filter (\<lambda>e. fst e \<in> ts) es)"

definition entries ::
  "('t, 'v, 'c, 'a, 'm) MeasurementGroup list \<Rightarrow> 't set option \<Rightarrow> ('t, 'v) entry list" where
  "entries groups measurement_types = keep_types measurement_types (flatten groups)"

text \<open>
  Modelled from the spec: step 3, one entry after the other: an entry replaces what is
  kept for its type when nothing is kept yet or when its timestamp is not earlier than
  the kept one (last seen wins among equal timestamps).
\<close>

definition see :: "('t, 'v) entry \<Rightarrow> ('t \<rightharpoonup> 'v \<times> int) \<Rightarrow> ('t \<rightharpoonup> 'v \<times> int)" where
  "see e best =
     (case e of (t, v, seen) \<Rightarrow>
        (case best t of
           None \<Rightarrow> best(t \<mapsto> (v, seen))
         | Some (v', seen') \<Rightarrow> if seen' \<le> seen then best(t \<mapsto> (v, seen)) else best))"

definition latest :: "('t, 'v) entry list \<Rightarrow> ('t \<rightharpoonup> 'v \<times> int)" where
  "latest es = fold see es Map.empty"

text \<open>
  Modelled from the spec: \<open>aggregate_measurements\<close> of \<open>helpers.py\<close>: steps 1 to 3,
  then step 4, the mapping from each type to the value of its winner.
\<close>

definition aggregate_measurements ::
  "('t, 'v, 'c, 'a, 'm) MeasurementGroup list \<Rightarrow> 't set option \<Rightarrow> ('t \<rightharpoonup> 'v)" where
  "aggregate_measurements groups measurement_types =
     map_option fst \<circ> latest (keep_types measurement_types (flatten groups))"

text \<open>
  The winner among entries, by position: entry \<open>i\<close> wins for its type when every entry \<open>j\<close>
  of that type has an earlier timestamp, or the same timestamp and a place not after \<open>i\<close>.
\<close>

definition wins :: "('t, 'v) entry list \<Rightarrow> nat \<Rightarrow> bool" where
  "wins es i =
     (i < length es \<and>
      (\<forall>j < length es. fst (es ! j) = fst (es ! i) \<longrightarrow>
         snd (snd (es ! j)) < snd (snd (es ! i))
         \<or> (snd (snd (es ! j)) = snd (snd (es ! i)) \<and> j \<le> i)))"

subsection \<open>Example inputs\<close>

text \<open>
  A group with a timestamp and measurements named by strings; the two groups of the
  specification's example and two groups with the same timestamp; a codec that knows
  the codes 1 and 4 and keeps a value as its pair of mantissa and exponent, with a
  payload and the group it is read into.
\<close>

definition group_at ::
  "int \<Rightarrow> (string \<times> real) list \<Rightarrow> (string, real, unit, unit, unit) MeasurementGroup" where
  "group_at seen ms =
     \<lparr>measured_at = seen, category = (), attribution = (), device_id = None, model = None,
      measurements = map (\<lambda>(t, v). \<lparr>measurement_type = t, measurement_value = v\<rparr>) ms\<rparr>"

definition example_groups :: "(string, real, unit, unit, unit) MeasurementGroup list" where
  "example_groups =
     [group_at 100 [(''weight'', 70)], group_at 200 [(''weight'', 72), (''height'', 1.8)]]"

definition example_tie_groups :: "(string, real, unit, unit, unit) MeasurementGroup list" where
  "example_tie_groups =
     [group_at 100 [(''weight'', 70)], group_at 100 [(''weight'', 72)]]"

definition example_type_of_code :: "int \<Rightarrow> string option" where
  "example_type_of_code code =
     (if code = 1 then Some ''weight'' else if code = 4 then Some ''height'' else None)"

definition example_codec :: "(string, int \<times> int, int, int, int) codec" where
  "example_codec =
     \<lparr>type_of_code = example_type_of_code, decode = Pair,
      category_of_code = Some, attribution_of_code = Some, model_of_code = Some\<rparr>"

definition example_raw_group :: raw_measurement_group where
  "example_raw_group =
     \<lparr>raw_category = 1, raw_attribution = 0, raw_date = 1700000000,
      raw_measures =
        [\<lparr>raw_type = 4, raw_value = 18, raw_unit = - 1\<rparr>,
         \<lparr>raw_type = 1, raw_value = 70000, raw_unit = - 3\<rparr>],
      raw_deviceid = None, raw_model = None\<rparr>"

definition example_group :: "(string, int \<times> int, int, int, int) MeasurementGroup" where
  "example_group =
     \<lparr>measured_at = 1700000000, category = 1, attribution = 0, device_id = None, model = None,
      measurements =
        [\<lparr>measurement_type = ''height'', measurement_value = (18, - 1)\<rparr>,
         \<lparr>measurement_type = ''weight'', measurement_value = (70000, - 3)\<rparr>]\<rparr>"

section \<open>Properties of the transport client\<close>

lemma ensure_session_eq:
  "ensure_session c w =
     (case session c of
        None \<Rightarrow> (next_session w, c\<lparr>session := Some (next_session w), close_session := True\<rparr>,
                 w\<lparr>next_session := Suc (next_session w)\<rparr>)
      | Some s \<Rightarrow> (s, c, w))"
  by (simp add: ensure_session_def ClientSession_def split: option.splits)

lemma send_eq:
  "send net c w u headers data =
     (let s = fst (ensure_session c w);
          call = sent_call c s u headers data;
          block = timeout_block (request_timeout c) (net call);
          after = after_block (snd block)
      in (fst after,
          fst (snd (ensure_session c w)),
          (snd (snd (ensure_session c w)))
            \<lparr>calls := calls w @ [call], clock := clock w + fst block + snd after\<rparr>))"
  by (simp add: send_def ensure_session_eq sent_call_def Let_def split: option.splits prod.splits)

lemma request_failed:
  assumes "request lib net c w uri data = (res, c', w')" and "prepare lib c uri = Inl e"
  shows "res = Inl e \<and> c' = c \<and> w' = w"
  using assms by (simp add: request_def)

lemma request_sent:
  assumes "request lib net c w uri data = (res, c', w')" and "prepare lib c uri = Inr (u, headers)"
  shows "send net c w u headers data = (res, c', w')"
  using assms by (simp add: request_def)

lemma send_calls:
  assumes "send net c w u headers data = (res, c', w')"
  shows "calls w' = calls w @ [sent_call c (fst (ensure_session c w)) u headers data]"
  using assms unfolding send_eq by (auto simp: Let_def)

lemma send_result:
  assumes "send net c w u headers data = (res, c', w')"
  shows "res = fst (after_block (snd (timeout_block (request_timeout c)
           (net (sent_call c (fst (ensure_session c w)) u headers data)))))"
  using assms unfolding send_eq by (auto simp: Let_def)

lemma send_clock:
  assumes "send net c w u headers data = (res, c', w')"
  shows "clock w' = clock w
           + fst (timeout_block (request_timeout c)
                (net (sent_call c (fst (ensure_session c w)) u headers data)))
           + snd (after_block (snd (timeout_block (request_timeout c)
                (net (sent_call c (fst (ensure_session c w)) u headers data)))))"
  using assms unfolding send_eq by (auto simp: Let_def)



lemma timeout_block_late:
  "b = Never \<or> (\<exists>d e. b = After d e \<and> t \<le> int d) \<Longrightarrow>
     timeout_block t b = (nat t, Raises Asyncio_TimeoutError)"
  by (auto simp: timeout_block_def)

lemma timeout_block_in_time: "int d < t \<Longrightarrow> timeout_block t (After d e) = (d, e)"
  by (simp add: timeout_block_def)

text \<open>
  C10, as the code has it. On a client whose token is still \<open>None\<close> (\<open>authenticate\<close>
  never called), whenever the lines before the call succeed (the version is found,
  \<open>URL.build\<close> takes the host and \<open>joinpath\<close> the uri), \<open>_request\<close> sends its request
  all the same: exactly one call is added to the log, its headers are \<open>User-Agent\<close>,
  \<open>Accept\<close> and \<open>Authorization\<close>, and the \<open>Authorization\<close> header is the string
  \<open>Bearer None\<close>. On any client, \<open>authenticate\<close> stores the token and leaves every
  other field as it was, and whether the lines before the call raise does not depend on
  the token.
\<close>

theorem request_unauthenticated_bearer_none:
  fixes net :: "'d http_call \<Rightarrow> 'j behaviour"
  assumes "token c = None"
    and "prepare lib c uri = Inr p"
    and "request lib net c w uri data = (res, c', w')"
  shows "calls w' = calls w @ [last (calls w')]
       \<and> map fst (http_headers (last (calls w'))) = [''User-Agent'', ''Accept'', ''Authorization'']
       \<and> map_of (http_headers (last (calls w'))) ''Authorization'' = Some ''Bearer None''
       \<and> authenticate c0 tok = c0\<lparr>token := Some tok\<rparr>
       \<and> (\<forall>e. prepare lib (authenticate c0 tok) uri0 = Inl e \<longleftrightarrow> prepare lib c0 uri0 = Inl e)"
proof -
  obtain u headers where p: "p = (u, headers)"
    by (cases p) auto
  have h: "\<exists>version. headers = request_headers version c"
    using assms(2) unfolding p
    by (auto simp: prepare_def split: sum.splits)
  have s: "send net c w u headers data = (res, c', w')"
    using request_sent assms(3) assms(2) unfolding p by blast
  have sent: "calls w' = calls w @ [sent_call c (fst (ensure_session c w)) u headers data]"
    by (rule send_calls [OF s])
  then have l: "http_headers (last (calls w')) = headers"
    by (simp add: sent_call_def)
  have 1: "calls w' = calls w @ [last (calls w')]"
    using sent by simp
  have 2: "map fst (http_headers (last (calls w'))) = [''User-Agent'', ''Accept'', ''Authorization'']"
    unfolding l using h by (auto simp: request_headers_def)
  have 3: "map_of (http_headers (last (calls w'))) ''Authorization'' = Some ''Bearer None''"
    unfolding l using h assms(1) by (auto simp: request_headers_def format_token_def)
  have 4: "authenticate c0 tok = c0\<lparr>token := Some tok\<rparr>"
    by (simp add: authenticate_def)
  have 5: "\<forall>e. prepare lib (authenticate c0 tok) uri0 = Inl e \<longleftrightarrow> prepare lib c0 uri0 = Inl e"
    by (simp add: prepare_def authenticate_def split: sum.splits)
  from 1 2 3 4 5 show ?thesis by (intro conjI)
qed

theorem request_unauthenticated_bearer_none_witness:
  "token WithingsClient_default = None
   \<and> map_of (http_headers (last (calls (snd (snd
        (request example_library (always (After 1 (Returns status_401_response)))
           WithingsClient_default (fresh_world 0) ''v2/user'' (Some ''getdevice'')))))))
       ''Authorization'' = Some ''Bearer None''"
proof -
  let ?r = "request example_library (always (After 1 (Returns status_401_response)))
           WithingsClient_default (fresh_world 0) ''v2/user'' (Some ''getdevice'')"
  have h1: "token WithingsClient_default = None"
    by (simp add: WithingsClient_default_def)
  have h2: "prepare example_library WithingsClient_default ''v2/user''
     = Inr (\<lparr>url_scheme = ''https'', url_host = ''wbsapi.withings.net'', url_port = 443,
             url_segments = [''v2/user'']\<rparr>,
            [(''User-Agent'', ''AioWithings/2.0''),
             (''Accept'', ''application/json, text/plain, */*''),
             (''Authorization'', ''Bearer None'')])"
    by (simp add: prepare_def metadata_version_def URL_build_def joinpath_def
        example_library_def example_host_ok_def WithingsClient_default_def
        request_headers_def format_token_def)
  have h3: "?r = (fst ?r, fst (snd ?r), snd (snd ?r))"
    by simp
  note r = request_unauthenticated_bearer_none
    [OF h1 h2 h3, where tok = "[]" and ?c0.0 = WithingsClient_default and ?uri0.0 = "[]"]
  from r have "map_of (http_headers (last (calls (snd (snd ?r))))) ''Authorization''
      = Some ''Bearer None''"
    by (elim conjE)
  with h1 show ?thesis
    by (intro conjI)
qed

text \<open>
  C10 as the specification has it fails on a client without host: with the token still
  \<open>None\<close>, \<open>URL.build\<close> raises, \<open>_request\<close> ends with that exception and no call is made.
\<close>

theorem request_unauthenticated_no_host_counterexample:
  "token (WithingsClient_default\<lparr>api_host := []\<rparr>) = None
   \<and> fst (request example_library (always (After 1 (Returns status_401_response)))
        (WithingsClient_default\<lparr>api_host := []\<rparr>) (fresh_world 0) ''v2/user''
        (Some ''getdevice''))
      = Inl (Uncaught ''ValueError'')
   \<and> calls (snd (snd (request example_library (always (After 1 (Returns status_401_response)))
        (WithingsClient_default\<lparr>api_host := []\<rparr>) (fresh_world 0) ''v2/user''
        (Some ''getdevice''))))
      = []"
  by code_simp

text \<open>
  C7, as the code has it. \<open>WithingsClient()\<close> has the timeout 10. A request whose
  first lines raise makes no call and takes no time. Otherwise \<open>_request\<close> makes
  exactly one call of \<open>session.request\<close>, inside a timeout block of the client's
  \<open>request_timeout\<close> seconds. When the call has not ended by then, \<open>_request\<close> ends with
  \<open>WithingsConnectionError\<close> at that moment, with no second call. When the call ends in
  time with an exception, \<open>_request\<close> ends with it at once (a timeout error of the call
  itself becomes \<open>WithingsConnectionError\<close> too). When the call ends in time with a
  response, the body is read after the block: \<open>_request\<close> then takes the time of the call
  and the time of the body, which the timeout does not bound.
\<close>

theorem request_call_under_timeout:
  fixes net :: "'d http_call \<Rightarrow> 'j behaviour"
  assumes "request lib net c w uri data = (res, c', w')"
  shows "request_timeout WithingsClient_default = 10
       \<and> (\<forall>e. prepare lib c uri = Inl e \<longrightarrow>
             res = Inl e \<and> calls w' = calls w \<and> clock w' = clock w)
       \<and> (\<forall>p. prepare lib c uri = Inr p \<longrightarrow>
             calls w' = calls w @ [last (calls w')]
           \<and> under_timeout (last (calls w')) = request_timeout c
           \<and> (net (last (calls w')) = Never
                \<or> (\<exists>d e. net (last (calls w')) = After d e \<and> request_timeout c \<le> int d) \<longrightarrow>
                res = Inl (WithingsConnectionError ''Timeout occurred while connecting to Withings'')
                \<and> clock w' = clock w + nat (request_timeout c))
           \<and> (\<forall>d x. net (last (calls w')) = After d (Raises x) \<and> int d < request_timeout c \<longrightarrow>
                res = fst (after_block (Raises x)) \<and> clock w' = clock w + d)
           \<and> (\<forall>d r. net (last (calls w')) = After d (Returns r) \<and> int d < request_timeout c \<longrightarrow>
                res = handle_response r \<and> clock w' = clock w + d + body_seconds r))"
proof -
  have 1: "request_timeout WithingsClient_default = 10"
    by (simp add: WithingsClient_default_def)
  have 2: "\<forall>e. prepare lib c uri = Inl e \<longrightarrow>
             res = Inl e \<and> calls w' = calls w \<and> clock w' = clock w"
    using request_failed [OF assms] by auto
  have 3: "\<forall>p. prepare lib c uri = Inr p \<longrightarrow>
             calls w' = calls w @ [last (calls w')]
           \<and> under_timeout (last (calls w')) = request_timeout c
           \<and> (net (last (calls w')) = Never
                \<or> (\<exists>d e. net (last (calls w')) = After d e \<and> request_timeout c \<le> int d) \<longrightarrow>
                res = Inl (WithingsConnectionError ''Timeout occurred while connecting to Withings'')
                \<and> clock w' = clock w + nat (request_timeout c))
           \<and> (\<forall>d x. net (last (calls w')) = After d (Raises x) \<and> int d < request_timeout c \<longrightarrow>
                res = fst (after_block (Raises x)) \<and> clock w' = clock w + d)
           \<and> (\<forall>d r. net (last (calls w')) = After d (Returns r) \<and> int d < request_timeout c \<longrightarrow>
                res = handle_response r \<and> clock w' = clock w + d + body_seconds r)"
  proof (intro allI impI)
    fix p assume pr: "prepare lib c uri = Inr p"
    obtain u headers where p: "p = (u, headers)"
      by (cases p) auto
    let ?call = "sent_call c (fst (ensure_session c w)) u headers data"
    have s: "send net c w u headers data = (res, c', w')"
      using request_sent assms pr unfolding p by blast
    have sent: "calls w' = calls w @ [?call]"
      by (rule send_calls [OF s])
    then have l: "last (calls w') = ?call"
      by simp
    note r = send_result [OF s]
    note k = send_clock [OF s]
    have a: "calls w' = calls w @ [last (calls w')]"
      using sent by simp
    have b: "under_timeout (last (calls w')) = request_timeout c"
      unfolding l by (simp add: sent_call_def)
    have c: "net (last (calls w')) = Never
                \<or> (\<exists>d e. net (last (calls w')) = After d e \<and> request_timeout c \<le> int d) \<longrightarrow>
                res = Inl (WithingsConnectionError ''Timeout occurred while connecting to Withings'')
                \<and> clock w' = clock w + nat (request_timeout c)"
    proof
      assume "net (last (calls w')) = Never
                \<or> (\<exists>d e. net (last (calls w')) = After d e \<and> request_timeout c \<le> int d)"
      then have "timeout_block (request_timeout c) (net ?call)
          = (nat (request_timeout c), Raises Asyncio_TimeoutError)"
        unfolding l by (rule timeout_block_late)
      then show "res = Inl (WithingsConnectionError ''Timeout occurred while connecting to Withings'')
                \<and> clock w' = clock w + nat (request_timeout c)"
        using r k by simp
    qed
    have d: "\<forall>d x. net (last (calls w')) = After d (Raises x) \<and> int d < request_timeout c \<longrightarrow>
                res = fst (after_block (Raises x)) \<and> clock w' = clock w + d"
    proof (intro allI impI)
      fix d x assume "net (last (calls w')) = After d (Raises x) \<and> int d < request_timeout c"
      then have "timeout_block (request_timeout c) (net ?call) = (d, Raises x)"
        unfolding l by (simp add: timeout_block_in_time)
      then show "res = fst (after_block (Raises x)) \<and> clock w' = clock w + d"
        using r k by (cases x) simp_all
    qed
    have e: "\<forall>d r. net (last (calls w')) = After d (Returns r) \<and> int d < request_timeout c \<longrightarrow>
                res = handle_response r \<and> clock w' = clock w + d + body_seconds r"
    proof (intro allI impI)
      fix d r assume "net (last (calls w')) = After d (Returns r) \<and> int d < request_timeout c"
      then have "timeout_block (request_timeout c) (net ?call) = (d, Returns r)"
        unfolding l by (simp add: timeout_block_in_time)
      then show "res = handle_response r \<and> clock w' = clock w + d + body_seconds r"
        using r k by simp
    qed
    from a b c d e show "calls w' = calls w @ [last (calls w')]
           \<and> under_timeout (last (calls w')) = request_timeout c
           \<and> (net (last (calls w')) = Never
                \<or> (\<exists>d e. net (last (calls w')) = After d e \<and> request_timeout c \<le> int d) \<longrightarrow>
                res = Inl (WithingsConnectionError ''Timeout occurred while connecting to Withings'')
                \<and> clock w' = clock w + nat (request_timeout c))
           \<and> (\<forall>d x. net (last (calls w')) = After d (Raises x) \<and> int d < request_timeout c \<longrightarrow>
                res = fst (after_block (Raises x)) \<and> clock w' = clock w + d)
           \<and> (\<forall>d r. net (last (calls w')) = After d (Returns r) \<and> int d < request_timeout c \<longrightarrow>
                res = handle_response r \<and> clock w' = clock w + d + body_seconds r)"
      by (intro conjI)
  qed
  from 1 2 3 show ?thesis by (intro conjI)
qed

theorem request_call_under_timeout_witness:
  "fst (request example_library (always (Never :: unit behaviour))
          (WithingsClient_default\<lparr>request_timeout := 3\<rparr>) (fresh_world 0) ''measure''
          (Some ''getmeas''))
     = Inl (WithingsConnectionError ''Timeout occurred while connecting to Withings'')
   \<and> clock (snd (snd (request example_library (always (Never :: unit behaviour))
          (WithingsClient_default\<lparr>request_timeout := 3\<rparr>) (fresh_world 0) ''measure''
          (Some ''getmeas''))))
     = 3"
proof -
  let ?c = "WithingsClient_default\<lparr>request_timeout := 3\<rparr>"
  let ?net = "always (Never :: unit behaviour) :: string http_call \<Rightarrow> unit behaviour"
  let ?r = "request example_library ?net ?c (fresh_world 0) ''measure'' (Some ''getmeas'')"
  have h: "?r = (fst ?r, fst (snd ?r), snd (snd ?r))"
    by simp
  have p: "prepare example_library ?c ''measure''
     = Inr (\<lparr>url_scheme = ''https'', url_host = ''wbsapi.withings.net'', url_port = 443,
             url_segments = [''measure'']\<rparr>,
            [(''User-Agent'', ''AioWithings/2.0''),
             (''Accept'', ''application/json, text/plain, */*''),
             (''Authorization'', ''Bearer None'')])"
    by (simp add: prepare_def metadata_version_def URL_build_def joinpath_def
        example_library_def example_host_ok_def WithingsClient_default_def
        request_headers_def format_token_def)
  have n: "?net (last (calls (snd (snd ?r)))) = Never
      \<or> (\<exists>d e. ?net (last (calls (snd (snd ?r)))) = After d e \<and> request_timeout ?c \<le> int d)"
    by (simp add: always_def)
  note r = request_call_under_timeout [OF h]
  from r have "\<forall>p. prepare example_library ?c ''measure'' = Inr p \<longrightarrow>
      calls (snd (snd ?r)) = calls (fresh_world 0) @ [last (calls (snd (snd ?r)))]
      \<and> under_timeout (last (calls (snd (snd ?r)))) = request_timeout ?c
      \<and> (?net (last (calls (snd (snd ?r)))) = Never
           \<or> (\<exists>d e. ?net (last (calls (snd (snd ?r)))) = After d e \<and> request_timeout ?c \<le> int d) \<longrightarrow>
           fst ?r = Inl (WithingsConnectionError ''Timeout occurred while connecting to Withings'')
           \<and> clock (snd (snd ?r)) = clock (fresh_world 0 :: string world) + nat (request_timeout ?c))
      \<and> (\<forall>d x. ?net (last (calls (snd (snd ?r)))) = After d (Raises x) \<and> int d < request_timeout ?c \<longrightarrow>
           fst ?r = fst (after_block (Raises x))
           \<and> clock (snd (snd ?r)) = clock (fresh_world 0 :: string world) + d)
      \<and> (\<forall>d r. ?net (last (calls (snd (snd ?r)))) = After d (Returns r) \<and> int d < request_timeout ?c \<longrightarrow>
           fst ?r = handle_response r
           \<and> clock (snd (snd ?r)) = clock (fresh_world 0 :: string world) + d + body_seconds r)"
    by (elim conjE)
  with p have "?net (last (calls (snd (snd ?r)))) = Never
           \<or> (\<exists>d e. ?net (last (calls (snd (snd ?r)))) = After d e \<and> request_timeout ?c \<le> int d) \<longrightarrow>
           fst ?r = Inl (WithingsConnectionError ''Timeout occurred while connecting to Withings'')
           \<and> clock (snd (snd ?r)) = clock (fresh_world 0 :: string world) + nat (request_timeout ?c)"
    by blast
  then have t: "fst ?r = Inl (WithingsConnectionError ''Timeout occurred while connecting to Withings'')
           \<and> clock (snd (snd ?r)) = clock (fresh_world 0 :: string world) + nat (request_timeout ?c)"
    using n by (rule mp)
  have k: "clock (fresh_world 0 :: string world) + nat (request_timeout ?c) = 3"
    by (simp add: fresh_world_def)
  from t k show ?thesis
    by simp
qed

text \<open>
  C7 as the specification has it fails on a slow body: with the timeout 10, a
  response whose head arrives after 1 second and whose body takes 100 seconds to read
  is returned after 101 seconds, and no \<open>WithingsConnectionError\<close> is raised.
\<close>

theorem request_outlives_timeout_counterexample:
  "request_timeout WithingsClient_default = 10
   \<and> fst (request example_library (always (After 1 (Returns slow_body_response)))
        WithingsClient_default (fresh_world 0) ''v2/user'' (Some ''getdevice''))
      = Inr [(''status'', 0)]
   \<and> clock (snd (snd (request example_library (always (After 1 (Returns slow_body_response)))
        WithingsClient_default (fresh_world 0) ''v2/user'' (Some ''getdevice''))))
      = 101"
  by code_simp










text \<open>
  C9, as the code has it. When \<open>_request\<close> has made its call and a response has come
  back in time: if its \<open>Content-Type\<close> does not contain \<open>application/json\<close> (a missing
  header counts as the empty string), \<open>_request\<close> returns no value: it raises
  \<open>WithingsError\<close> with the content type and the response text, or, when
  \<open>response.text()\<close> raises, lets that exception through. If the \<open>Content-Type\<close>
  contains \<open>application/json\<close>, \<open>_request\<close> returns what \<open>response.json()\<close> returns,
  whatever status the body carries, and lets the exception through when
  \<open>response.json()\<close> raises (a malformed body, or a content type that \<open>aiohttp\<close> does
  not take for JSON): it raises none of the errors named after API status codes.
\<close>

theorem request_response_handling:
  fixes net :: "'d http_call \<Rightarrow> 'j behaviour"
  assumes "request lib net c w uri data = (res, c', w')"
    and "calls w' = calls w @ [call]"
    and "net call = After d (Returns r)"
    and "int d < request_timeout c"
  shows "(\<not> sublist ''application/json'' (content_type r) \<longrightarrow>
            (\<forall>text. response_text r = Some text \<longrightarrow>
               res = Inl (WithingsError ''Unexpected response from Withings''
                            [(''Content-Type'', content_type r), (''response'', text)]))
            \<and> (response_text r = None \<longrightarrow> res = Inl (Uncaught ''response.text'')))
       \<and> (sublist ''application/json'' (content_type r) \<longrightarrow>
            (\<forall>j. response_json r = Some j \<longrightarrow> res = Inr j)
            \<and> (response_json r = None \<longrightarrow> res = Inl (Uncaught ''response.json'')))"
proof -
  have "\<exists>p. prepare lib c uri = Inr p"
  proof (cases "prepare lib c uri")
    case (Inl e)
    from request_failed [OF assms(1) Inl] assms(2) show ?thesis by simp
  next
    case (Inr p)
    then show ?thesis by blast
  qed
  then obtain u headers where pr: "prepare lib c uri = Inr (u, headers)"
    by auto
  let ?call = "sent_call c (fst (ensure_session c w)) u headers data"
  have s: "send net c w u headers data = (res, c', w')"
    by (rule request_sent [OF assms(1) pr])
  have "calls w' = calls w @ [?call]"
    by (rule send_calls [OF s])
  with assms(2) have l: "?call = call"
    by simp
  have "timeout_block (request_timeout c) (net ?call) = (d, Returns r)"
    unfolding l assms(3) using assms(4) by (rule timeout_block_in_time)
  with send_result [OF s] have res: "res = handle_response r"
    by simp
  have 1: "\<not> sublist ''application/json'' (content_type r) \<longrightarrow>
            (\<forall>text. response_text r = Some text \<longrightarrow>
               res = Inl (WithingsError ''Unexpected response from Withings''
                            [(''Content-Type'', content_type r), (''response'', text)]))
            \<and> (response_text r = None \<longrightarrow> res = Inl (Uncaught ''response.text''))"
    unfolding res handle_response_def by simp
  have 2: "sublist ''application/json'' (content_type r) \<longrightarrow>
            (\<forall>j. response_json r = Some j \<longrightarrow> res = Inr j)
            \<and> (response_json r = None \<longrightarrow> res = Inl (Uncaught ''response.json''))"
    unfolding res handle_response_def by simp
  from 1 2 show ?thesis by (rule conjI)
qed

theorem request_response_handling_witness:
  "fst (request example_library (always (After 1 (Returns bad_gateway_response)))
          WithingsClient_default (fresh_world 0) ''v2/user'' (Some ''getdevice''))
     = Inl (WithingsError ''Unexpected response from Withings''
              [(''Content-Type'', ''text/html''), (''response'', ''Bad Gateway'')])"
proof -
  let ?net = "always (After 1 (Returns bad_gateway_response))
                :: string http_call \<Rightarrow> (string \<times> int) list behaviour"
  let ?r = "request example_library ?net
              WithingsClient_default (fresh_world 0) ''v2/user'' (Some ''getdevice'')"
  have h1: "?r = (fst ?r, fst (snd ?r), snd (snd ?r))"
    by simp
  have h2: "calls (snd (snd ?r)) = calls (fresh_world 0) @ [last (calls (snd (snd ?r)))]"
    by code_simp
  have h3: "?net (last (calls (snd (snd ?r)))) = After 1 (Returns bad_gateway_response)"
    by (simp add: always_def)
  have h4: "int 1 < request_timeout WithingsClient_default"
    by (simp add: WithingsClient_default_def)
  have ct: "content_type bad_gateway_response = ''text/html''"
    by (simp add: content_type_def bad_gateway_response_def)
  have tx: "response_text bad_gateway_response = Some ''Bad Gateway''"
    by (simp add: bad_gateway_response_def)
  have n: "\<not> sublist ''application/json'' (content_type bad_gateway_response)"
    unfolding ct by code_simp
  note t = request_response_handling [OF h1 h2 h3 h4]
  from t have "\<not> sublist ''application/json'' (content_type bad_gateway_response) \<longrightarrow>
      (\<forall>text. response_text bad_gateway_response = Some text \<longrightarrow>
         fst ?r = Inl (WithingsError ''Unexpected response from Withings''
                        [(''Content-Type'', content_type bad_gateway_response), (''response'', text)]))
      \<and> (response_text bad_gateway_response = None \<longrightarrow> fst ?r = Inl (Uncaught ''response.text''))"
    by (elim conjE)
  then have "\<forall>text. response_text bad_gateway_response = Some text \<longrightarrow>
         fst ?r = Inl (WithingsError ''Unexpected response from Withings''
                        [(''Content-Type'', content_type bad_gateway_response), (''response'', text)])"
    using n by blast
  then have "fst ?r = Inl (WithingsError ''Unexpected response from Withings''
      [(''Content-Type'', content_type bad_gateway_response), (''response'', ''Bad Gateway'')])"
    using tx by blast
  then show ?thesis
    unfolding ct by simp
qed

text \<open>
  C9 as the specification has it fails for the status codes: a JSON response whose
  body carries the status 401 comes back from \<open>_request\<close> as a value; no error is
  raised for it. And a JSON response whose body does not parse ends \<open>_request\<close> with
  the exception of \<open>response.json()\<close>, not with an error of the client.
\<close>

theorem request_status_401_returned_counterexample:
  "fst (request example_library (always (After 1 (Returns status_401_response)))
          WithingsClient_default (fresh_world 0) ''v2/user'' (Some ''getdevice''))
     = Inr [(''status'', 401)]
   \<and> fst (request example_library (always (After 1 (Returns malformed_json_response)))
          WithingsClient_default (fresh_world 0) ''v2/user'' (Some ''getdevice''))
     = Inl (Uncaught ''response.json'')"
  by code_simp

section \<open>Properties of the measurement model and the aggregator\<close>

lemma wins_unique:
  assumes "wins es i" "wins es k" "fst (es ! i) = fst (es ! k)"
  shows "i = k"
proof -
  from assms have "snd (snd (es ! k)) < snd (snd (es ! i)) \<or> (snd (snd (es ! k)) = snd (snd (es ! i)) \<and> k \<le> i)"
    unfolding wins_def by metis
  moreover from assms have "snd (snd (es ! i)) < snd (snd (es ! k)) \<or> (snd (snd (es ! i)) = snd (snd (es ! k)) \<and> i \<le> k)"
    unfolding wins_def by metis
  ultimately show ?thesis by auto
qed

lemma latest_snoc: "latest (es @ [e]) = see e (latest es)"
  by (simp add: latest_def)

lemma latest_inv:
  "(latest es t = None \<and> t \<notin> fst ` set es)
   \<or> (\<exists>i. wins es i \<and> fst (es ! i) = t \<and> latest es t = Some (snd (es ! i)))"
proof (induction es rule: rev_induct)
  case Nil
  then show ?case by (simp add: latest_def)
next
  case (snoc e es)
  obtain t0 v0 a0 where e: "e = (t0, v0, a0)" by (cases e) auto
  show ?case
  proof (cases "t = t0")
    case False
    have l: "latest (es @ [e]) t = latest es t"
      using False by (auto simp: latest_snoc see_def e split: option.splits)
    from snoc show ?thesis
    proof
      assume "latest es t = None \<and> t \<notin> fst ` set es"
      then show ?thesis using l False e by auto
    next
      assume "\<exists>i. wins es i \<and> fst (es ! i) = t \<and> latest es t = Some (snd (es ! i))"
      then obtain i where i: "wins es i" "fst (es ! i) = t" "latest es t = Some (snd (es ! i))"
        by blast
      have il: "i < length es" using i(1) by (simp add: wins_def)
      have "wins (es @ [e]) i"
        unfolding wins_def
      proof (intro conjI allI impI)
        show "i < length (es @ [e])" using il by simp
      next
        fix j assume j: "j < length (es @ [e])" "fst ((es @ [e]) ! j) = fst ((es @ [e]) ! i)"
        have "j < length es"
        proof (rule ccontr)
          assume "\<not> j < length es"
          then have "j = length es" using j(1) by simp
          then show False using j(2) il i(2) False e by (simp add: nth_append)
        qed
        then show "snd (snd ((es @ [e]) ! j)) < snd (snd ((es @ [e]) ! i))
         \<or> (snd (snd ((es @ [e]) ! j)) = snd (snd ((es @ [e]) ! i)) \<and> j \<le> i)"
          using i(1) j(2) il by (simp add: wins_def nth_append)
      qed
      then show ?thesis using i il l by (auto simp: nth_append)
    qed
  next
    case True
    let ?n = "length es"
    have nth_n: "(es @ [e]) ! ?n = e" by simp
    from snoc show ?thesis
    proof
      assume a: "latest es t = None \<and> t \<notin> fst ` set es"
      have l: "latest (es @ [e]) t = Some (v0, a0)"
        using a True by (simp add: latest_snoc see_def e)
      have "wins (es @ [e]) ?n"
        unfolding wins_def
      proof (intro conjI allI impI)
        show "?n < length (es @ [e])" by simp
      next
        fix j assume j: "j < length (es @ [e])" "fst ((es @ [e]) ! j) = fst ((es @ [e]) ! ?n)"
        have "j = ?n"
        proof (rule ccontr)
          assume "j \<noteq> ?n"
          then have jl: "j < ?n" using j(1) by simp
          then have "fst (es ! j) = t" using j(2) True e by (simp add: nth_append)
          then have "t \<in> fst ` set es" using jl by (metis image_eqI nth_mem)
          then show False using a by simp
        qed
        then show "snd (snd ((es @ [e]) ! j)) < snd (snd ((es @ [e]) ! ?n))
         \<or> (snd (snd ((es @ [e]) ! j)) = snd (snd ((es @ [e]) ! ?n)) \<and> j \<le> ?n)"
          by simp
      qed
      then show ?thesis using l True e nth_n by (metis fst_conv snd_conv)
    next
      assume "\<exists>i. wins es i \<and> fst (es ! i) = t \<and> latest es t = Some (snd (es ! i))"
      then obtain i where i: "wins es i" "fst (es ! i) = t" "latest es t = Some (snd (es ! i))"
        by blast
      have il: "i < length es" using i(1) by (simp add: wins_def)
      obtain v1 a1 where ei: "snd (es ! i) = (v1, a1)" by (cases "snd (es ! i)") auto
      show ?thesis
      proof (cases "a1 \<le> a0")
        case le: True
        have l: "latest (es @ [e]) t = Some (v0, a0)"
          using i(3) ei le True by (simp add: latest_snoc see_def e)
        have "wins (es @ [e]) ?n"
          unfolding wins_def
        proof (intro conjI allI impI)
          show "?n < length (es @ [e])" by simp
        next
          fix j assume j: "j < length (es @ [e])" "fst ((es @ [e]) ! j) = fst ((es @ [e]) ! ?n)"
          show "snd (snd ((es @ [e]) ! j)) < snd (snd ((es @ [e]) ! ?n))
           \<or> (snd (snd ((es @ [e]) ! j)) = snd (snd ((es @ [e]) ! ?n)) \<and> j \<le> ?n)"
          proof (cases "j = ?n")
            case True then show ?thesis by simp
          next
            case False
            then have jl: "j < ?n" using j(1) by simp
            then have "fst (es ! j) = fst (es ! i)" using j(2) True e i(2) by (simp add: nth_append)
            then have "snd (snd (es ! j)) \<le> snd (snd (es ! i))"
              using i(1) jl unfolding wins_def by force
            then have "snd (snd (es ! j)) \<le> a0" using ei le by simp
            then show ?thesis using jl e by (auto simp: nth_append)
          qed
        qed
        then show ?thesis using l True e nth_n by (metis fst_conv snd_conv)
      next
        case gt: False
        have l: "latest (es @ [e]) t = Some (snd (es ! i))"
          using i(3) ei gt True by (simp add: latest_snoc see_def e)
        have "wins (es @ [e]) i"
          unfolding wins_def
        proof (intro conjI allI impI)
          show "i < length (es @ [e])" using il by simp
        next
          fix j assume j: "j < length (es @ [e])" "fst ((es @ [e]) ! j) = fst ((es @ [e]) ! i)"
          show "snd (snd ((es @ [e]) ! j)) < snd (snd ((es @ [e]) ! i))
           \<or> (snd (snd ((es @ [e]) ! j)) = snd (snd ((es @ [e]) ! i)) \<and> j \<le> i)"
          proof (cases "j = ?n")
            case True
            then show ?thesis using gt ei il e by (simp add: nth_append)
          next
            case False
            then have jl: "j < ?n" using j(1) by simp
            then show ?thesis using i(1) j(2) il by (simp add: wins_def nth_append)
          qed
        qed
        then show ?thesis using l il i(2) by (auto simp: nth_append)
      qed
    qed
  qed
qed


lemma aggregate_Some_iff:
  "aggregate_measurements groups mts t = Some v \<longleftrightarrow>
     (\<exists>i. wins (entries groups mts) i \<and> fst (entries groups mts ! i) = t
          \<and> fst (snd (entries groups mts ! i)) = v)"
proof
  assume a: "aggregate_measurements groups mts t = Some v"
  then obtain p where p: "latest (entries groups mts) t = Some p" "fst p = v"
    by (auto simp: aggregate_measurements_def entries_def)
  from latest_inv [of "entries groups mts" t] p(1)
  obtain i where "wins (entries groups mts) i" "fst (entries groups mts ! i) = t"
    "latest (entries groups mts) t = Some (snd (entries groups mts ! i))"
    by auto
  with p show "\<exists>i. wins (entries groups mts) i \<and> fst (entries groups mts ! i) = t
          \<and> fst (snd (entries groups mts ! i)) = v"
    by auto
next
  assume "\<exists>i. wins (entries groups mts) i \<and> fst (entries groups mts ! i) = t
          \<and> fst (snd (entries groups mts ! i)) = v"
  then obtain i where i: "wins (entries groups mts) i" "fst (entries groups mts ! i) = t"
    "fst (snd (entries groups mts ! i)) = v" by blast
  have il: "i < length (entries groups mts)" using i(1) by (simp add: wins_def)
  then have "t \<in> fst ` set (entries groups mts)"
    using i(2) by (metis image_eqI nth_mem)
  with latest_inv [of "entries groups mts" t]
  obtain k where k: "wins (entries groups mts) k" "fst (entries groups mts ! k) = t"
    "latest (entries groups mts) t = Some (snd (entries groups mts ! k))"
    by auto
  have "i = k" using wins_unique [OF i(1) k(1)] i(2) k(2) by simp
  with k(3) i(3) show "aggregate_measurements groups mts t = Some v"
    by (simp add: aggregate_measurements_def entries_def)
qed

lemma aggregate_None_iff:
  "aggregate_measurements groups mts t = None \<longleftrightarrow> t \<notin> fst ` set (entries groups mts)"
proof -
  have "latest (entries groups mts) t = None \<longleftrightarrow> t \<notin> fst ` set (entries groups mts)"
    using latest_inv [of "entries groups mts" t]
    by (auto simp: wins_def)
  then show ?thesis
    by (simp add: aggregate_measurements_def entries_def)
qed

text \<open>
  C1. The result of \<open>aggregate_measurements\<close> holds \<open>v\<close> for the type \<open>t\<close> exactly
  when, among the entries that survive the filter, taken in the order of the input
  groups and of the measurements in each group, the winning entry of type \<open>t\<close> has the
  value \<open>v\<close>: the entry with the latest \<open>measured_at\<close> of its group and, among equal
  timestamps, the last one. A type has no value exactly when no surviving entry has it.
\<close>

theorem aggregate_measurements_latest_last_seen:
  "(aggregate_measurements groups mts t = Some v \<longleftrightarrow>
      (\<exists>i. wins (entries groups mts) i \<and> fst (entries groups mts ! i) = t
           \<and> fst (snd (entries groups mts ! i)) = v))
   \<and> (aggregate_measurements groups mts t = None \<longleftrightarrow> t \<notin> fst ` set (entries groups mts))"
  using aggregate_Some_iff [of groups mts t v] aggregate_None_iff [of groups mts t]
  by (rule conjI)

theorem aggregate_measurements_latest_last_seen_witness:
  "aggregate_measurements example_groups None ''weight'' = Some 72
   \<and> aggregate_measurements example_tie_groups None ''weight'' = Some 72"
proof -
  let ?a = "example_groups"
  let ?b = "example_tie_groups"
  have ea: "entries ?a None = [(''weight'', 70, 100), (''weight'', 72, 200), (''height'', 1.8, 200)]"
    by (simp add: entries_def keep_types_def flatten_def group_at_def example_groups_def)
  have eb: "entries ?b None = [(''weight'', 70, 100), (''weight'', 72, 100)]"
    by (simp add: entries_def keep_types_def flatten_def group_at_def example_tie_groups_def)
  have wa: "wins (entries ?a None) 1"
    unfolding ea by (simp add: wins_def less_Suc_eq numeral_3_eq_3)
  have wb: "wins (entries ?b None) 1"
    unfolding eb by (simp add: wins_def less_Suc_eq numeral_2_eq_2)
  have va: "fst (entries ?a None ! 1) = ''weight'' \<and> fst (snd (entries ?a None ! 1)) = 72"
    unfolding ea by simp
  have vb: "fst (entries ?b None ! 1) = ''weight'' \<and> fst (snd (entries ?b None ! 1)) = 72"
    unfolding eb by simp
  have xa: "\<exists>i. wins (entries ?a None) i \<and> fst (entries ?a None ! i) = ''weight''
      \<and> fst (snd (entries ?a None ! i)) = 72"
    using wa va by (intro exI [of _ 1] conjI) (elim conjE, assumption)+
  have xb: "\<exists>i. wins (entries ?b None) i \<and> fst (entries ?b None ! i) = ''weight''
      \<and> fst (snd (entries ?b None ! i)) = 72"
    using wb vb by (intro exI [of _ 1] conjI) (elim conjE, assumption)+
  from aggregate_measurements_latest_last_seen [of ?a None "''weight''" 72]
  have ia: "aggregate_measurements ?a None ''weight'' = Some 72 \<longleftrightarrow>
      (\<exists>i. wins (entries ?a None) i \<and> fst (entries ?a None ! i) = ''weight''
         \<and> fst (snd (entries ?a None ! i)) = 72)"
    by (elim conjE)
  from aggregate_measurements_latest_last_seen [of ?b None "''weight''" 72]
  have ib: "aggregate_measurements ?b None ''weight'' = Some 72 \<longleftrightarrow>
      (\<exists>i. wins (entries ?b None) i \<and> fst (entries ?b None ! i) = ''weight''
         \<and> fst (snd (entries ?b None ! i)) = 72)"
    by (elim conjE)
  have 1: "aggregate_measurements ?a None ''weight'' = Some 72"
    using ia xa by (rule iffD2)
  have 2: "aggregate_measurements ?b None ''weight'' = Some 72"
    using ib xb by (rule iffD2)
  from 1 2 show ?thesis by (rule conjI)
qed

lemma set_flatten:
  "set (flatten groups) =
     {(measurement_type m, measurement_value m, measured_at g) | g m.
        g \<in> set groups \<and> m \<in> set (measurements g)}"
  by (auto simp: flatten_def)

lemma types_of_entries:
  "fst ` set (entries groups mts) =
     {t. (\<exists>g \<in> set groups. \<exists>m \<in> set (measurements g). measurement_type m = t)
         \<and> (case mts of None \<Rightarrow> True | Some ts \<Rightarrow> t \<in> ts)}"
  by (cases mts) (force simp: entries_def keep_types_def set_flatten)+

lemma aggregate_dom: "dom (aggregate_measurements groups mts) = fst ` set (entries groups mts)"
  using aggregate_None_iff [of groups mts] by (auto simp: dom_def)

lemma aggregate_value_from_input:
  assumes "aggregate_measurements groups mts t = Some v"
  shows "\<exists>g \<in> set groups. \<exists>m \<in> set (measurements g).
           measurement_type m = t \<and> measurement_value m = v"
proof -
  from assms obtain i where i: "wins (entries groups mts) i"
    "fst (entries groups mts ! i) = t" "fst (snd (entries groups mts ! i)) = v"
    using aggregate_Some_iff [of groups mts t v] by blast
  have "i < length (entries groups mts)" using i(1) by (simp add: wins_def)
  then have "entries groups mts ! i \<in> set (entries groups mts)" by simp
  then have "entries groups mts ! i \<in> set (flatten groups)"
    by (cases mts) (auto simp: entries_def keep_types_def)
  then obtain g m where "g \<in> set groups" "m \<in> set (measurements g)"
    "entries groups mts ! i = (measurement_type m, measurement_value m, measured_at g)"
    unfolding set_flatten by blast
  with i(2,3) show ?thesis by auto
qed

text \<open>
  C6. \<open>aggregate_measurements\<close> has a result on every input: no groups give the empty
  mapping; a filter that none of the input measurements passes gives the empty mapping;
  the types of the result are exactly the types of the input measurements that pass the
  filter; and every value of the result is the value of an input measurement of that
  type, never a placeholder.
\<close>

theorem aggregate_measurements_total_and_absent:
  "aggregate_measurements [] mts = Map.empty
   \<and> ((\<forall>g \<in> set groups. \<forall>m \<in> set (measurements g). measurement_type m \<notin> ts) \<longrightarrow>
        aggregate_measurements groups (Some ts) = Map.empty)
   \<and> dom (aggregate_measurements groups mts) =
        {t. (\<exists>g \<in> set groups. \<exists>m \<in> set (measurements g). measurement_type m = t)
            \<and> (case mts of None \<Rightarrow> True | Some ts \<Rightarrow> t \<in> ts)}
   \<and> (\<forall>t v. aggregate_measurements groups mts t = Some v \<longrightarrow>
          (\<exists>g \<in> set groups. \<exists>m \<in> set (measurements g).
             measurement_type m = t \<and> measurement_value m = v))"
proof -
  have d: "\<And>gs m. dom (aggregate_measurements gs m) =
        {t. (\<exists>g \<in> set gs. \<exists>m \<in> set (measurements g). measurement_type m = t)
            \<and> (case m of None \<Rightarrow> True | Some ts \<Rightarrow> t \<in> ts)}"
    by (simp only: aggregate_dom types_of_entries)
  have 1: "aggregate_measurements [] mts = Map.empty"
    using d [of "[]" mts] by simp
  have 2: "(\<forall>g \<in> set groups. \<forall>m \<in> set (measurements g). measurement_type m \<notin> ts) \<longrightarrow>
        aggregate_measurements groups (Some ts) = Map.empty"
  proof
    assume "\<forall>g \<in> set groups. \<forall>m \<in> set (measurements g). measurement_type m \<notin> ts"
    then have "dom (aggregate_measurements groups (Some ts)) = {}"
      unfolding d by auto
    then show "aggregate_measurements groups (Some ts) = Map.empty" by simp
  qed
  have 4: "\<forall>t v. aggregate_measurements groups mts t = Some v \<longrightarrow>
          (\<exists>g \<in> set groups. \<exists>m \<in> set (measurements g).
             measurement_type m = t \<and> measurement_value m = v)"
    by (intro allI impI) (rule aggregate_value_from_input)
  from 1 2 d [of groups mts] 4 show ?thesis by (intro conjI)
qed

theorem aggregate_measurements_total_and_absent_witness:
  "aggregate_measurements example_groups (Some {''heart_rate''}) = Map.empty"
proof -
  have h: "\<forall>g \<in> set example_groups. \<forall>m \<in> set (measurements g).
      measurement_type m \<notin> {''heart_rate''}"
    by (simp add: group_at_def example_groups_def)
  note r = aggregate_measurements_total_and_absent
    [where groups = example_groups and ts = "{''heart_rate''}" and mts = None]
  from r have "(\<forall>g \<in> set example_groups. \<forall>m \<in> set (measurements g).
      measurement_type m \<notin> {''heart_rate''}) \<longrightarrow>
        aggregate_measurements example_groups (Some {''heart_rate''}) = Map.empty"
    by (elim conjE)
  then show ?thesis
    using h by (rule mp)
qed

lemma measures_from_api_map:
  "measures_from_api cd raws = Inr ms \<Longrightarrow> map (Measurement_from_api cd) raws = map Inr ms"
  by (induction raws arbitrary: ms) (auto split: sum.splits)

lemma measures_from_api_ok:
  "(\<exists>ms. measures_from_api cd raws = Inr ms) \<longleftrightarrow>
     (\<forall>raw \<in> set raws. type_of_code cd (raw_type raw) \<noteq> None)"
  by (induction raws)
     (auto simp: Measurement_from_api_def enum_from_api_def split: sum.splits option.splits)

lemma MeasurementGroup_from_api_ok:
  "(\<exists>g. MeasurementGroup_from_api cd raw = Inr g) \<longleftrightarrow>
     category_of_code cd (raw_category raw) \<noteq> None
     \<and> attribution_of_code cd (raw_attribution raw) \<noteq> None
     \<and> (\<forall>m \<in> set (raw_measures raw). type_of_code cd (raw_type m) \<noteq> None)
     \<and> (\<forall>code. raw_model raw = Some code \<longrightarrow> model_of_code cd code \<noteq> None)"
  using measures_from_api_ok [of cd "raw_measures raw"]
  by (auto simp: MeasurementGroup_from_api_def enum_from_api_def optional_model_from_api_def
      split: sum.splits option.splits)

text \<open>
  C5. When \<open>MeasurementGroup.from_api\<close> returns a group, its \<open>measurements\<close> are as many
  as the raw \<open>measures\<close>, and the measurement at each place is \<open>Measurement.from_api\<close> of
  the raw entry at that place. It returns a group exactly when the codes of the payload
  are known: the category, the attribution, the type of every entry, and the model when
  there is one.
\<close>

theorem MeasurementGroup_from_api_keeps_order:
  assumes "MeasurementGroup_from_api cd raw = Inr g"
  shows "length (measurements g) = length (raw_measures raw)
       \<and> (\<forall>i < length (raw_measures raw).
            Measurement_from_api cd (raw_measures raw ! i) = Inr (measurements g ! i))
       \<and> ((\<exists>g'. MeasurementGroup_from_api cd raw' = Inr g') \<longleftrightarrow>
            category_of_code cd (raw_category raw') \<noteq> None
            \<and> attribution_of_code cd (raw_attribution raw') \<noteq> None
            \<and> (\<forall>m \<in> set (raw_measures raw'). type_of_code cd (raw_type m) \<noteq> None)
            \<and> (\<forall>code. raw_model raw' = Some code \<longrightarrow> model_of_code cd code \<noteq> None))"
proof -
  from assms have m: "measures_from_api cd (raw_measures raw) = Inr (measurements g)"
    by (auto simp: MeasurementGroup_from_api_def split: sum.splits)
  have e: "map (Measurement_from_api cd) (raw_measures raw) = map Inr (measurements g)"
    by (rule measures_from_api_map [OF m])
  have l: "length (measurements g) = length (raw_measures raw)"
    using arg_cong [OF e, of length] by simp
  have n: "\<forall>i < length (raw_measures raw).
            Measurement_from_api cd (raw_measures raw ! i) = Inr (measurements g ! i)"
  proof (intro allI impI)
    fix i assume i: "i < length (raw_measures raw)"
    have "map (Measurement_from_api cd) (raw_measures raw) ! i = map Inr (measurements g) ! i"
      using e by simp
    then show "Measurement_from_api cd (raw_measures raw ! i) = Inr (measurements g ! i)"
      using i l by simp
  qed
  from l n MeasurementGroup_from_api_ok [of cd raw'] show ?thesis
    by (intro conjI)
qed

theorem MeasurementGroup_from_api_keeps_order_witness:
  "MeasurementGroup_from_api example_codec example_raw_group = Inr example_group
   \<and> map measurement_type (measurements example_group) = [''height'', ''weight'']
   \<and> Measurement_from_api example_codec (raw_measures example_raw_group ! 0)
       = Inr (measurements example_group ! 0)
   \<and> Measurement_from_api example_codec (raw_measures example_raw_group ! 1)
       = Inr (measurements example_group ! 1)"
proof -
  have h: "MeasurementGroup_from_api example_codec example_raw_group = Inr example_group"
    by (simp add: MeasurementGroup_from_api_def Measurement_from_api_def enum_from_api_def
        optional_model_from_api_def example_codec_def example_type_of_code_def
        example_raw_group_def example_group_def)
  have t: "map measurement_type (measurements example_group) = [''height'', ''weight'']"
    by (simp add: example_group_def)
  have l: "length (raw_measures example_raw_group) = 2"
    by (simp add: example_raw_group_def)
  from MeasurementGroup_from_api_keeps_order [OF h, where raw' = example_raw_group]
  have n: "\<forall>i < length (raw_measures example_raw_group).
        Measurement_from_api example_codec (raw_measures example_raw_group ! i)
          = Inr (measurements example_group ! i)"
    by (elim conjE)
  have 0: "Measurement_from_api example_codec (raw_measures example_raw_group ! 0)
       = Inr (measurements example_group ! 0)"
    using n l by simp
  have 1: "Measurement_from_api example_codec (raw_measures example_raw_group ! 1)
       = Inr (measurements example_group ! 1)"
    using n l by simp
  from h t 0 1 show ?thesis
    by (intro conjI)
qed

end
